theory Spec2Isabelle
  imports Complex_Main
begin

section \<open>Python values\<close>

text \<open>
  The service (\<^verbatim>\<open>src/src/app.py\<close>) handles JSON documents and the metadata dictionary of
  the artifact.  Both are Python values: \<^verbatim>\<open>None\<close>, booleans, unbounded integers, floats,
  strings, lists and dictionaries with string keys.  A float is either a finite double
  (represented by the rational number it denotes) or one of the three special values.
  No claim depends on the arithmetic of doubles; only their classification matters.
  A dictionary is an association list read with \<open>map_of\<close>.
\<close>

datatype pyfloat = Finite rat | PosInf | NegInf | NaN

datatype pyval =
    PNone
  | PBool bool
  | PInt int
  | PFloat pyfloat
  | PStr string
  | PList "pyval list"
  | PDict "(string \<times> pyval) list"

text \<open>
  The conversions between strings and numbers are library code (Python's \<^verbatim>\<open>int\<close>,
  \<^verbatim>\<open>float\<close> and the parser of pydantic); they are parameters of the model.
  \<open>None\<close> is a raised conversion error.
\<close>

record conv =
  float_of_int :: "int \<Rightarrow> pyfloat option"
  float_of_str :: "string \<Rightarrow> pyfloat option"
  int_of_str :: "string \<Rightarrow> int option"

text \<open>
  The texts of Python's exceptions name the type of the object and put names in single
  quotes.  \<open>str_nat\<close> and \<open>str_int\<close> are \<^verbatim>\<open>str\<close> of a number: its decimal digits.
\<close>

fun type_name :: "pyval \<Rightarrow> string" where
  "type_name PNone = ''NoneType''"
| "type_name (PBool b) = ''bool''"
| "type_name (PInt i) = ''int''"
| "type_name (PFloat f) = ''float''"
| "type_name (PStr s) = ''str''"
| "type_name (PList xs) = ''list''"
| "type_name (PDict d) = ''dict''"

definition quoted :: "string \<Rightarrow> string" where
  "quoted s = CHR 0x27 # s @ [CHR 0x27]"

fun str_nat :: "nat \<Rightarrow> string" where
  "str_nat n =
     (if n < 10 then [char_of (48 + n)]
      else str_nat (n div 10) @ [char_of (48 + n mod 10)])"

declare str_nat.simps [simp del]

definition str_int :: "int \<Rightarrow> string" where
  "str_int i = (if i < 0 then CHR ''-'' # str_nat (nat (- i)) else str_nat (nat i))"

text \<open>Python's truth value of an object, as used by \<^verbatim>\<open>if class_names\<close>.\<close>

fun py_truthy :: "pyval \<Rightarrow> bool" where
  "py_truthy PNone = False"
| "py_truthy (PBool b) = b"
| "py_truthy (PInt i) = (i \<noteq> 0)"
| "py_truthy (PFloat f) = (f \<noteq> Finite 0)"
| "py_truthy (PStr s) = (s \<noteq> [])"
| "py_truthy (PList xs) = (xs \<noteq> [])"
| "py_truthy (PDict d) = (d \<noteq> [])"

text \<open>
  \<^verbatim>\<open>int(x)\<close>: \<open>None\<close> when Python raises (TypeError, ValueError, OverflowError).
  A finite float is truncated towards zero.
\<close>

fun py_int :: "conv \<Rightarrow> pyval \<Rightarrow> int option" where
  "py_int cv (PInt i) = Some i"
| "py_int cv (PBool b) = Some (if b then 1 else 0)"
| "py_int cv (PFloat (Finite q)) = Some (if q < 0 then - \<lfloor>- q\<rfloor> else \<lfloor>q\<rfloor>)"
| "py_int cv (PFloat PosInf) = None"
| "py_int cv (PFloat NegInf) = None"
| "py_int cv (PFloat NaN) = None"
| "py_int cv (PStr s) = int_of_str cv s"
| "py_int cv PNone = None"
| "py_int cv (PList xs) = None"
| "py_int cv (PDict d) = None"

text \<open>
  \<^verbatim>\<open>meta.get(key, default)\<close>: only a dictionary has the method; on any other object the
  attribute lookup raises (\<open>None\<close>).
\<close>

fun meta_get :: "pyval \<Rightarrow> string \<Rightarrow> pyval \<Rightarrow> pyval option" where
  "meta_get (PDict d) key dflt = Some (case map_of d key of Some v \<Rightarrow> v | None \<Rightarrow> dflt)"
| "meta_get PNone key dflt = None"
| "meta_get (PBool b) key dflt = None"
| "meta_get (PInt i) key dflt = None"
| "meta_get (PFloat f) key dflt = None"
| "meta_get (PStr s) key dflt = None"
| "meta_get (PList xs) key dflt = None"

text \<open>
  \<^verbatim>\<open>class_names[pred_idx]\<close>: Python subscription with an integer.  Negative indices count
  from the end of a list or string; out of range raises IndexError; a dictionary with
  string keys has no integer key (KeyError); other objects are not subscriptable
  (TypeError).  \<open>Inl\<close> carries \<^verbatim>\<open>str(e)\<close> of the exception.
\<close>

definition index_in :: "'a list \<Rightarrow> int \<Rightarrow> 'a option" where
  "index_in xs i =
     (let n = int (length xs); j = (if i < 0 then n + i else i)
      in if 0 \<le> j \<and> j < n then Some (xs ! nat j) else None)"

definition not_subscriptable :: "pyval \<Rightarrow> string" where
  "not_subscriptable v = quoted (type_name v) @ '' object is not subscriptable''"

fun py_getitem :: "pyval \<Rightarrow> int \<Rightarrow> string + pyval" where
  "py_getitem (PList xs) i =
     (case index_in xs i of Some v \<Rightarrow> Inr v | None \<Rightarrow> Inl ''list index out of range'')"
| "py_getitem (PStr s) i =
     (case index_in s i of Some c \<Rightarrow> Inr (PStr [c]) | None \<Rightarrow> Inl ''string index out of range'')"
| "py_getitem (PDict d) i = Inl (str_int i)"
| "py_getitem PNone i = Inl (not_subscriptable PNone)"
| "py_getitem (PBool b) i = Inl (not_subscriptable (PBool b))"
| "py_getitem (PInt k) i = Inl (not_subscriptable (PInt k))"
| "py_getitem (PFloat f) i = Inl (not_subscriptable (PFloat f))"

section \<open>Input schema\<close>

text \<open>
  \<^verbatim>\<open>class PredictInput(BaseModel):
      features: Annotated[List[float], Field(min_length=30, max_length=30)]\<close>

  A validation error of pydantic is a list of entries; each has a type, a location (the
  field name, then the index of the element) and the offending input.  The message text
  and the documentation link of an entry are not modelled.
\<close>

datatype verr = VErr (err_type: string) (err_loc: "pyval list") (err_input: pyval)

datatype pyexc = ValidationError "verr list" | Raised string

definition features_len :: nat where
  "features_len = 30"

text \<open>
  Validation of one element against \<^verbatim>\<open>float\<close> in pydantic's default (lax) mode: floats
  pass unchanged (the schema does not set \<^verbatim>\<open>allow_inf_nan=False\<close>), integers and booleans
  are converted, strings are parsed, everything else is a type error.
\<close>

fun float_validate :: "conv \<Rightarrow> pyval \<Rightarrow> string + pyfloat" where
  "float_validate cv (PFloat f) = Inr f"
| "float_validate cv (PInt i) =
     (case float_of_int cv i of Some f \<Rightarrow> Inr f | None \<Rightarrow> Inl ''float_type'')"
| "float_validate cv (PBool b) = Inr (Finite (if b then 1 else 0))"
| "float_validate cv (PStr s) =
     (case float_of_str cv s of Some f \<Rightarrow> Inr f | None \<Rightarrow> Inl ''float_parsing'')"
| "float_validate cv PNone = Inl ''float_type''"
| "float_validate cv (PList xs) = Inl ''float_type''"
| "float_validate cv (PDict d) = Inl ''float_type''"

text \<open>
  The elements are validated in order.  Every element, valid or not, counts towards
  \<^verbatim>\<open>max_length\<close>, and exceeding it aborts the validation of the list at once (\<open>None\<close>);
  otherwise the errors of all elements are collected, each under its index.
\<close>

fun list_items :: "conv \<Rightarrow> nat \<Rightarrow> pyval list \<Rightarrow> (verr list \<times> pyfloat list) option" where
  "list_items cv i [] = Some ([], [])"
| "list_items cv i (v # vs) =
     (if features_len < Suc i then None
      else case list_items cv (Suc i) vs of
             None \<Rightarrow> None
           | Some (es, fs) \<Rightarrow>
               (case float_validate cv v of
                  Inr f \<Rightarrow> Some (es, f # fs)
                | Inl t \<Rightarrow> Some (VErr t [PStr ''features'', PInt (int i)] v # es, fs)))"

text \<open>
  The field \<^verbatim>\<open>features\<close>: a non-list is a type error; a list that is too long gives the
  single error \<^verbatim>\<open>too_long\<close>; element errors are reported next; \<^verbatim>\<open>min_length\<close> is checked
  last, on an otherwise valid list.
\<close>

definition validate_features :: "conv \<Rightarrow> pyval \<Rightarrow> verr list + pyfloat list" where
  "validate_features cv v =
     (case v of
        PList vs \<Rightarrow>
          (case list_items cv 0 vs of
             None \<Rightarrow> Inl [VErr ''too_long'' [PStr ''features''] v]
           | Some (es, fs) \<Rightarrow>
               if es \<noteq> [] then Inl es
               else if length fs < features_len then Inl [VErr ''too_short'' [PStr ''features''] v]
               else Inr fs)
      | _ \<Rightarrow> Inl [VErr ''list_type'' [PStr ''features''] v])"

text \<open>
  \<^verbatim>\<open>PredictInput(**data)\<close>: unpacking with \<^verbatim>\<open>**\<close> needs a mapping, anything else is a
  TypeError.  A missing field is a validation error; other fields are ignored.
\<close>

definition PredictInput :: "conv \<Rightarrow> pyval \<Rightarrow> pyexc + pyfloat list" where
  "PredictInput cv data =
     (case data of
        PDict d \<Rightarrow>
          (case map_of d ''features'' of
             None \<Rightarrow> Inl (ValidationError [VErr ''missing'' [PStr ''features''] data])
           | Some v \<Rightarrow>
               (case validate_features cv v of
                  Inl es \<Rightarrow> Inl (ValidationError es)
                | Inr fs \<Rightarrow> Inr fs))
      | _ \<Rightarrow>
          Inl (Raised (''PredictInput() argument after ** must be a mapping, not ''
                       @ type_name data)))"

text \<open>\<^verbatim>\<open>ve.errors()\<close> as JSON.\<close>

definition verr_json :: "verr \<Rightarrow> pyval" where
  "verr_json e =
     PDict [(''type'', PStr (err_type e)), (''loc'', PList (err_loc e)), (''input'', err_input e)]"

section \<open>Artifact and application state\<close>

text \<open>
  The predictor is opaque.  \<open>model_predict\<close> is the outcome of
  \<^verbatim>\<open>int(app.model.predict(X)[0])\<close>, \<open>model_predict_proba\<close> that of
  \<^verbatim>\<open>app.model.predict_proba(X)[0].tolist()\<close>, absent when the object has no such
  attribute.  Either may raise.
\<close>

record predictor =
  model_predict :: "pyfloat list \<Rightarrow> pyexc + int"
  model_predict_proba :: "(pyfloat list \<Rightarrow> pyexc + pyfloat list) option"

text \<open>
  What \<^verbatim>\<open>joblib.load\<close> returns: a dictionary that may hold the keys \<^verbatim>\<open>model\<close> (whose value
  is an object or \<^verbatim>\<open>None\<close>) and \<^verbatim>\<open>meta\<close>, or some other object, given by the text of the
  exception that \<^verbatim>\<open>obj["model"]\<close> raises on it.
\<close>

datatype artifact =
    ArtDict (art_model: "predictor option option") (art_meta: "pyval option")
  | ArtOther string

text \<open>
  \<^verbatim>\<open>def load_artifact(path):
      obj = joblib.load(path)
      model = obj["model"]
      meta = obj.get("meta", {})
      return model, meta\<close>

  \<open>Inl\<close> carries \<^verbatim>\<open>str(e)\<close> of the exception raised.
\<close>

definition load_artifact ::
  "(string \<Rightarrow> string + artifact) \<Rightarrow> string \<Rightarrow> string + (predictor option \<times> pyval)" where
  "load_artifact joblib_load path =
     (case joblib_load path of
        Inl e \<Rightarrow> Inl e
      | Inr (ArtDict m mt) \<Rightarrow>
          (case m of
             None \<Rightarrow> Inl (quoted ''model'')
           | Some mdl \<Rightarrow> Inr (mdl, (case mt of None \<Rightarrow> PDict [] | Some v \<Rightarrow> v)))
      | Inr (ArtOther e) \<Rightarrow> Inl e)"

text \<open>
  \<^verbatim>\<open>def n_features_expected(meta):
      try:
          return int(meta.get("n_features", 30))
      except Exception:
          return 30\<close>
\<close>

definition n_features_expected :: "conv \<Rightarrow> pyval \<Rightarrow> int" where
  "n_features_expected cv meta =
     (case meta_get meta ''n_features'' (PInt 30) of
        None \<Rightarrow> 30
      | Some v \<Rightarrow> (case py_int cv v of Some n \<Rightarrow> n | None \<Rightarrow> 30))"

record app =
  app_model :: "predictor option"
  app_meta :: pyval
  app_load_error :: "string option"

text \<open>
  \<^verbatim>\<open>app.model = None; app.meta = {}; app.load_error = None
  try:
      app.model, app.meta = load_artifact(ARTIFACT_PATH)
  except Exception as e:
      app.load_error = str(e)\<close>
\<close>

definition create_app :: "(string \<Rightarrow> string + artifact) \<Rightarrow> string \<Rightarrow> app" where
  "create_app joblib_load path =
     (case load_artifact joblib_load path of
        Inr (mdl, mt) \<Rightarrow> \<lparr>app_model = mdl, app_meta = mt, app_load_error = None\<rparr>
      | Inl e \<Rightarrow> \<lparr>app_model = None, app_meta = PDict [], app_load_error = Some e\<rparr>)"

section \<open>Requests, responses and metrics\<close>

text \<open>
  A request as the handlers see it: \<^verbatim>\<open>request.method\<close>, the outcome of URL routing,
  \<^verbatim>\<open>request.headers.get\<close> as a partial map, and the outcome of
  \<^verbatim>\<open>request.get_json(force=True, silent=False)\<close>, which raises on a body that is not
  JSON.  Routing either raises an HTTP error (404, 405; \<^verbatim>\<open>request.endpoint\<close> is then
  \<^verbatim>\<open>None\<close>), or matches a rule; a matched rule answers \<^verbatim>\<open>OPTIONS\<close> by itself and calls the
  view function otherwise.
\<close>

datatype view = Root | Health | Predict | Metrics

datatype route = RoutingError nat | AutoOptions view | View view

fun endpoint_name :: "view \<Rightarrow> string" where
  "endpoint_name Root = ''root''"
| "endpoint_name Health = ''health''"
| "endpoint_name Predict = ''predict''"
| "endpoint_name Metrics = ''metrics''"

record request =
  req_method :: string
  req_route :: route
  req_headers :: "string \<rightharpoonup> string"
  req_json :: "pyexc + pyval"

fun request_endpoint :: "route \<Rightarrow> string option" where
  "request_endpoint (RoutingError c) = None"
| "request_endpoint (AutoOptions v) = Some (endpoint_name v)"
| "request_endpoint (View v) = Some (endpoint_name v)"

text \<open>
  What the environment supplies to one request: the value of \<^verbatim>\<open>str(uuid.uuid4())\<close> and the
  readings of \<^verbatim>\<open>time.time()\<close> before and after the handler.
\<close>

record env =
  env_uuid :: string
  env_time_before :: rat
  env_time_after :: rat

text \<open>The request context \<^verbatim>\<open>g\<close>.\<close>

record ctx =
  g_t0 :: rat
  g_request_id :: string

text \<open>
  The two Prometheus collectors: a counter per (endpoint, method, status) and the
  observations of a histogram per (endpoint, method).
\<close>

record metrics =
  REQ_COUNT :: "string \<times> string \<times> string \<Rightarrow> nat"
  REQ_LATENCY :: "string \<times> string \<Rightarrow> rat list"

datatype body = JsonBody pyval | MetricsBody metrics | EmptyBody

record response =
  resp_status :: nat
  resp_body :: body
  resp_headers :: "string \<rightharpoonup> string"

definition jsonify :: "pyval \<Rightarrow> nat \<Rightarrow> response" where
  "jsonify v code = \<lparr>resp_status = code, resp_body = JsonBody v, resp_headers = Map.empty\<rparr>"

text \<open>The field of a JSON object body.\<close>

fun json_field :: "body \<Rightarrow> string \<Rightarrow> pyval option" where
  "json_field (JsonBody (PDict d)) k = map_of d k"
| "json_field b k = None"

definition opt_str :: "string option \<Rightarrow> pyval" where
  "opt_str s = (case s of None \<Rightarrow> PNone | Some x \<Rightarrow> PStr x)"

section \<open>Middleware\<close>

text \<open>
  \<^verbatim>\<open>@app.before_request
  def before():
      g.t0 = time.time()
      g.request_id = request.headers.get("X-Request-Id", str(uuid.uuid4()))\<close>
\<close>

definition before :: "env \<Rightarrow> request \<Rightarrow> ctx" where
  "before e req =
     \<lparr>g_t0 = env_time_before e,
      g_request_id =
        (case req_headers req ''X-Request-Id'' of Some v \<Rightarrow> v | None \<Rightarrow> env_uuid e)\<rparr>"

text \<open>
  \<^verbatim>\<open>@app.after_request
  def after(resp):
      endpoint = request.endpoint or "unknown"
      method = request.method
      REQ_COUNT.labels(endpoint, method, str(resp.status_code)).inc()
      REQ_LATENCY.labels(endpoint, method).observe(time.time() - g.get("t0", time.time()))
      resp.headers["X-Request-Id"] = g.request_id
      return resp\<close>
\<close>

definition after :: "env \<Rightarrow> ctx \<Rightarrow> request \<Rightarrow> metrics \<Rightarrow> response \<Rightarrow> response \<times> metrics" where
  "after e g req ms resp =
     (let endpoint =
            (case request_endpoint (req_route req) of
               None \<Rightarrow> ''unknown''
             | Some n \<Rightarrow> if n = [] then ''unknown'' else n);
          method = req_method req;
          ck = (endpoint, method, str_nat (resp_status resp));
          lk = (endpoint, method)
      in (resp\<lparr>resp_headers := (resp_headers resp)(''X-Request-Id'' \<mapsto> g_request_id g)\<rparr>,
          ms\<lparr>REQ_COUNT := (REQ_COUNT ms)(ck := Suc (REQ_COUNT ms ck)),
             REQ_LATENCY :=
               (REQ_LATENCY ms)(lk := REQ_LATENCY ms lk @ [env_time_after e - g_t0 g])\<rparr>))"

section \<open>Endpoints\<close>

text \<open>
  The views return what \<^verbatim>\<open>jsonify\<close> is given, with the status code of the source.  The
  accented letters of the source's message texts are written without their accents;
  calls of the logger do not change a response and are left out.  The first argument of
  \<open>root\<close> is the configured \<^verbatim>\<open>ARTIFACT_PATH\<close>.
\<close>

definition root :: "string \<Rightarrow> app \<Rightarrow> response" where
  "root path a =
     jsonify (PDict [(''status'', PStr ''success''),
                     (''message'', PStr ''API ML Evaluacion Modular''),
                     (''model_path'', PStr path),
                     (''meta'', app_meta a),
                     (''load_error'', opt_str (app_load_error a))]) 200"

text \<open>
  \<^verbatim>\<open>ok = (app.model is not None) and (app.load_error is None)
  return jsonify({"status": "ok" if ok else "error", "model_loaded": ok,
                  "n_features": n_features_expected(app.meta), "meta": app.meta,
                  "error": app.load_error}), (200 if ok else 500)\<close>
\<close>

definition health :: "conv \<Rightarrow> app \<Rightarrow> response" where
  "health cv a =
     (let ok = (app_model a \<noteq> None \<and> app_load_error a = None)
      in jsonify (PDict [(''status'', PStr (if ok then ''ok'' else ''error'')),
                         (''model_loaded'', PBool ok),
                         (''n_features'', PInt (n_features_expected cv (app_meta a))),
                         (''meta'', app_meta a),
                         (''error'', opt_str (app_load_error a))])
                 (if ok then 200 else 500))"

text \<open>
  \<^verbatim>\<open>proba = app.model.predict_proba(X)[0].tolist() if hasattr(app.model, "predict_proba") else None\<close>
\<close>

definition proba_of :: "predictor \<Rightarrow> pyfloat list \<Rightarrow> pyexc + pyval" where
  "proba_of mdl X =
     (case model_predict_proba mdl of
        None \<Rightarrow> Inr PNone
      | Some pp \<Rightarrow> (case pp X of Inl e \<Rightarrow> Inl e | Inr ps \<Rightarrow> Inr (PList (map PFloat ps))))"

text \<open>
  \<^verbatim>\<open>class_names = app.meta.get("class_names")
  pred_name = (class_names[pred_idx] if class_names else pred_idx)\<close>
\<close>

definition pred_name_of :: "pyval \<Rightarrow> int \<Rightarrow> pyexc + pyval" where
  "pred_name_of mt pred_idx =
     (case meta_get mt ''class_names'' PNone of
        None \<Rightarrow>
          Inl (Raised (quoted (type_name mt) @ '' object has no attribute '' @ quoted ''get''))
      | Some class_names \<Rightarrow>
          if py_truthy class_names
          then (case py_getitem class_names pred_idx of
                  Inl s \<Rightarrow> Inl (Raised s) | Inr v \<Rightarrow> Inr v)
          else Inr (PInt pred_idx))"

text \<open>
  The body of the \<^verbatim>\<open>try\<close> block of \<^verbatim>\<open>predict\<close>, in the order of the source: read the
  JSON body, validate it, ask for the probabilities when the model has them, ask for the
  class, look the class name up, build the response.  \<open>Inl\<close> is the exception that
  leaves the block.
\<close>

definition predict_try :: "conv \<Rightarrow> predictor \<Rightarrow> pyval \<Rightarrow> ctx \<Rightarrow> request \<Rightarrow> pyexc + response" where
  "predict_try cv mdl mt g req =
     (case req_json req of
        Inl e \<Rightarrow> Inl e
      | Inr data \<Rightarrow>
     (case PredictInput cv data of
        Inl e \<Rightarrow> Inl e
      | Inr X \<Rightarrow>
     (case proba_of mdl X of
        Inl e \<Rightarrow> Inl e
      | Inr proba \<Rightarrow>
     (case model_predict mdl X of
        Inl e \<Rightarrow> Inl e
      | Inr pred_idx \<Rightarrow>
     (case pred_name_of mt pred_idx of
        Inl e \<Rightarrow> Inl e
      | Inr pred_name \<Rightarrow>
          Inr (jsonify (PDict [(''status'', PStr ''success''),
                               (''prediction_index'', PInt pred_idx),
                               (''prediction'', pred_name),
                               (''proba'', proba),
                               (''request_id'', PStr (g_request_id g))]) 200))))))"

text \<open>
  \<^verbatim>\<open>if app.model is None:
      return jsonify({"status": "error", "message": "Modelo no cargado",
                      "error": app.load_error}), 500
  try: ...
  except ValidationError as ve:
      return jsonify({"status":"error","message":"Payload invalido","details": ve.errors()}), 400
  except Exception as e:
      return jsonify({"status":"error","message":str(e)}), 500\<close>
\<close>

definition predict :: "conv \<Rightarrow> app \<Rightarrow> ctx \<Rightarrow> request \<Rightarrow> response" where
  "predict cv a g req =
     (case app_model a of
        None \<Rightarrow>
          jsonify (PDict [(''status'', PStr ''error''),
                          (''message'', PStr ''Modelo no cargado''),
                          (''error'', opt_str (app_load_error a))]) 500
      | Some mdl \<Rightarrow>
          (case predict_try cv mdl (app_meta a) g req of
             Inr resp \<Rightarrow> resp
           | Inl (ValidationError es) \<Rightarrow>
               jsonify (PDict [(''status'', PStr ''error''),
                               (''message'', PStr ''Payload invalido''),
                               (''details'', PList (map verr_json es))]) 400
           | Inl (Raised s) \<Rightarrow>
               jsonify (PDict [(''status'', PStr ''error''), (''message'', PStr s)]) 500))"

definition metrics_view :: "metrics \<Rightarrow> response" where
  "metrics_view ms = \<lparr>resp_status = 200, resp_body = MetricsBody ms, resp_headers = Map.empty\<rparr>"

text \<open>
  Dispatch of one request to its view, and the whole request: \<^verbatim>\<open>before\<close>, the view,
  \<^verbatim>\<open>after\<close>.  The app state is read, never written; the metrics are the only state
  that a request changes.
\<close>

fun dispatch :: "string \<Rightarrow> conv \<Rightarrow> app \<Rightarrow> metrics \<Rightarrow> ctx \<Rightarrow> request \<Rightarrow> route \<Rightarrow> response" where
  "dispatch path cv a ms g req (RoutingError c) =
     \<lparr>resp_status = c, resp_body = EmptyBody, resp_headers = Map.empty\<rparr>"
| "dispatch path cv a ms g req (AutoOptions v) =
     \<lparr>resp_status = 200, resp_body = EmptyBody, resp_headers = Map.empty\<rparr>"
| "dispatch path cv a ms g req (View Root) = root path a"
| "dispatch path cv a ms g req (View Health) = health cv a"
| "dispatch path cv a ms g req (View Predict) = predict cv a g req"
| "dispatch path cv a ms g req (View Metrics) = metrics_view ms"

definition handle_request ::
  "string \<Rightarrow> conv \<Rightarrow> env \<Rightarrow> app \<Rightarrow> metrics \<Rightarrow> request \<Rightarrow> response \<times> metrics" where
  "handle_request path cv e a ms req =
     (let g = before e req;
          resp = dispatch path cv a ms g req (req_route req)
      in after e g req ms resp)"

section \<open>Example inputs\<close>

text \<open>
  Concrete inputs for the examples below.  The conversion table turns every integer into
  the float of the same value and parses no string (the examples contain none).  The
  first predictor answers class 1 exactly when it is handed a NaN, the second always
  raises.  The artifact is the one the training script writes: a model and its metadata;
  a second artifact holds \<^verbatim>\<open>None\<close> in the place of the model.
\<close>

definition example_conv :: conv where
  "example_conv =
     \<lparr>float_of_int = (\<lambda>i. Some (Finite (of_int i))),
      float_of_str = (\<lambda>s. None),
      int_of_str = (\<lambda>s. None)\<rparr>"

definition nan_detector :: predictor where
  "nan_detector =
     \<lparr>model_predict = (\<lambda>X. Inr (if NaN \<in> set X then 1 else 0)),
      model_predict_proba = None\<rparr>"

definition failing_model :: "string \<Rightarrow> predictor" where
  "failing_model s =
     \<lparr>model_predict = (\<lambda>X. Inl (Raised s)), model_predict_proba = None\<rparr>"

definition loaded_app :: "predictor \<Rightarrow> pyval \<Rightarrow> app" where
  "loaded_app mdl mt = \<lparr>app_model = Some mdl, app_meta = mt, app_load_error = None\<rparr>"

definition post_predict :: "(string \<rightharpoonup> string) \<Rightarrow> pyval \<Rightarrow> request" where
  "post_predict hs data =
     \<lparr>req_method = ''POST'', req_route = View Predict, req_headers = hs, req_json = Inr data\<rparr>"

definition example_ctx :: ctx where
  "example_ctx = \<lparr>g_t0 = 0, g_request_id = ''r-1''\<rparr>"

definition features_body :: "pyval list \<Rightarrow> pyval" where
  "features_body vs = PDict [(''features'', PList vs)]"

definition missing_file :: "string \<Rightarrow> string + artifact" where
  "missing_file path = Inl ''No such file or directory''"

definition trained_artifact :: "string \<Rightarrow> string + artifact" where
  "trained_artifact path =
     Inr (ArtDict (Some (Some nan_detector))
            (Some (PDict [(''n_features'', PInt 30),
                          (''class_names'', PList [PStr ''malignant'', PStr ''benign''])])))"

definition null_model_artifact :: "string \<Rightarrow> string + artifact" where
  "null_model_artifact path =
     Inr (ArtDict (Some None) (Some (PDict [(''n_features'', PInt 30)])))"

definition example_env :: "string \<Rightarrow> rat \<Rightarrow> env" where
  "example_env u t = \<lparr>env_uuid = u, env_time_before = t, env_time_after = t + 1\<rparr>"

definition empty_metrics :: metrics where
  "empty_metrics = \<lparr>REQ_COUNT = (\<lambda>k. 0), REQ_LATENCY = (\<lambda>k. [])\<rparr>"

section \<open>Validation of the feature list\<close>

lemma list_items_None:
  "i \<le> features_len \<Longrightarrow> (list_items cv i vs = None) = (features_len < i + length vs)"
proof (induction vs arbitrary: i)
  case Nil
  then show ?case by simp
next
  case (Cons v vs)
  show ?case
  proof (cases "features_len < Suc i")
    case True
    then show ?thesis by simp
  next
    case False
    then have "Suc i \<le> features_len" by simp
    from Cons.IH [OF this] False show ?thesis
      by (cases "list_items cv (Suc i) vs") (auto split: sum.splits)
  qed
qed

lemma list_items_Cons:
  "list_items cv i (v # vs) = Some (es, fs) \<Longrightarrow>
     \<exists>es' fs'. list_items cv (Suc i) vs = Some (es', fs') \<and> set es' \<subseteq> set es"
  by (auto split: option.splits sum.splits if_splits)

lemma list_items_length:
  "list_items cv i vs = Some (es, fs) \<Longrightarrow> length es + length fs = length vs"
  by (induction vs arbitrary: i es fs) (auto split: option.splits sum.splits if_splits)

lemma list_items_no_errors:
  "list_items cv i vs = Some (es, fs) \<Longrightarrow>
     (es = []) = (\<forall>v \<in> set vs. \<exists>f. float_validate cv v = Inr f)"
  by (induction vs arbitrary: i es fs) (auto split: option.splits sum.splits if_splits)

text \<open>Every element that fails is reported, under its own index.\<close>

lemma list_items_all_errors:
  "list_items cv i vs = Some (es, fs) \<Longrightarrow> j < length vs \<Longrightarrow>
   float_validate cv (vs ! j) = Inl t \<Longrightarrow>
   VErr t [PStr ''features'', PInt (int (i + j))] (vs ! j) \<in> set es"
proof (induction vs arbitrary: i es fs j)
  case Nil
  then show ?case by simp
next
  case (Cons v vs)
  show ?case
  proof (cases j)
    case 0
    with Cons.prems show ?thesis
      by (auto split: option.splits sum.splits if_splits)
  next
    case (Suc k)
    from list_items_Cons [OF Cons.prems(1)] obtain es' fs' where
      rest: "list_items cv (Suc i) vs = Some (es', fs')" and sub: "set es' \<subseteq> set es"
      by blast
    from Cons.IH [OF rest, of k] Cons.prems Suc
    have "VErr t [PStr ''features'', PInt (int (Suc i + k))] (vs ! k) \<in> set es'"
      by simp
    with sub Suc show ?thesis by auto
  qed
qed

lemma validate_features_Inr:
  assumes "validate_features cv v = Inr fs"
  shows "\<exists>vs. v = PList vs \<and> length vs = features_len
            \<and> (\<forall>x \<in> set vs. \<exists>f. float_validate cv x = Inr f)"
proof (cases v)
  case (PList vs)
  with assms obtain es where li: "list_items cv 0 vs = Some (es, fs)"
    and es: "es = []" and len: "\<not> length fs < features_len"
    by (auto simp: validate_features_def split: option.splits if_splits)
  from list_items_length [OF li] es have l1: "length fs = length vs" by simp
  from list_items_None [of 0 cv vs] li have "\<not> features_len < length vs" by simp
  with l1 len have "length vs = features_len" by simp
  moreover from list_items_no_errors [OF li] es
  have "\<forall>x \<in> set vs. \<exists>f. float_validate cv x = Inr f" by simp
  ultimately show ?thesis using PList by simp
qed (use assms in \<open>simp_all add: validate_features_def\<close>)

lemma validate_features_Inl:
  "validate_features cv v = Inl es \<Longrightarrow> es \<noteq> []"
  by (cases v) (auto simp: validate_features_def split: option.splits if_splits)

lemma validate_features_accepts:
  assumes "length vs = features_len"
    and "\<forall>x \<in> set vs. \<exists>f. float_validate cv x = Inr f"
  shows "\<exists>fs. validate_features cv (PList vs) = Inr fs"
proof -
  from list_items_None [of 0 cv vs] assms(1)
  obtain es fs where li: "list_items cv 0 vs = Some (es, fs)"
    by (cases "list_items cv 0 vs") auto
  from list_items_no_errors [OF li] assms(2) have es: "es = []" by simp
  from list_items_length [OF li] es assms(1) have "length fs = features_len" by simp
  with li es show ?thesis by (simp add: validate_features_def)
qed

lemma validate_features_errors_listed:
  assumes "validate_features cv (PList vs) = Inl es" and "length vs \<le> features_len"
    and "j < length vs" and "float_validate cv (vs ! j) = Inl t"
  shows "VErr t [PStr ''features'', PInt (int j)] (vs ! j) \<in> set es"
proof -
  from list_items_None [of 0 cv vs] assms(2)
  obtain es' fs where li: "list_items cv 0 vs = Some (es', fs)"
    by (cases "list_items cv 0 vs") auto
  from list_items_all_errors [OF li assms(3) assms(4)]
  have mem: "VErr t [PStr ''features'', PInt (int j)] (vs ! j) \<in> set es'" by simp
  then have "es' \<noteq> []" by auto
  with assms(1) li have "es = es'" by (simp add: validate_features_def)
  with mem show ?thesis by simp
qed

lemma PredictInput_dict:
  "PredictInput cv (PDict d) =
     (case map_of d ''features'' of
        None \<Rightarrow> Inl (ValidationError [VErr ''missing'' [PStr ''features''] (PDict d)])
      | Some v \<Rightarrow>
          (case validate_features cv v of
             Inl es \<Rightarrow> Inl (ValidationError es)
           | Inr fs \<Rightarrow> Inr fs))"
  by (simp add: PredictInput_def)

text \<open>
  An object that breaks the contract is rejected with a non-empty list of errors, and
  when the list has at most 30 elements every element that fails has its own entry.
\<close>

lemma PredictInput_rejects:
  assumes "\<not> (\<exists>vs. map_of d ''features'' = Some (PList vs) \<and> length vs = 30
              \<and> (\<forall>x \<in> set vs. \<exists>f. float_validate cv x = Inr f))"
  shows "\<exists>es. PredictInput cv (PDict d) = Inl (ValidationError es) \<and> es \<noteq> []
     \<and> (\<forall>vs j t. map_of d ''features'' = Some (PList vs) \<longrightarrow> length vs \<le> 30 \<longrightarrow>
            j < length vs \<longrightarrow> float_validate cv (vs ! j) = Inl t \<longrightarrow>
            VErr t [PStr ''features'', PInt (int j)] (vs ! j) \<in> set es)"
proof (cases "map_of d ''features''")
  case None
  then show ?thesis by (simp add: PredictInput_dict)
next
  case (Some v)
  show ?thesis
  proof (cases "validate_features cv v")
    case (Inl es)
    from validate_features_Inl [OF Inl] have ne: "es \<noteq> []" .
    from Some Inl have pi: "PredictInput cv (PDict d) = Inl (ValidationError es)"
      by (simp add: PredictInput_dict)
    have "VErr t [PStr ''features'', PInt (int j)] (vs ! j) \<in> set es"
      if "map_of d ''features'' = Some (PList vs)" "length vs \<le> 30" "j < length vs"
        "float_validate cv (vs ! j) = Inl t" for vs j t
    proof -
      from that(1) Some Inl have "validate_features cv (PList vs) = Inl es" by simp
      from validate_features_errors_listed [OF this _ that(3) that(4)] that(2)
      show ?thesis by (simp add: features_len_def)
    qed
    with pi ne show ?thesis by blast
  next
    case (Inr fs)
    from validate_features_Inr [OF Inr] Some assms show ?thesis
      by (auto simp: features_len_def)
  qed
qed

lemma list_items_only_errors:
  "list_items cv i vs = Some (es, fs) \<Longrightarrow> e \<in> set es \<Longrightarrow>
     \<exists>j t. j < length vs \<and> float_validate cv (vs ! j) = Inl t
          \<and> e = VErr t [PStr ''features'', PInt (int (i + j))] (vs ! j)"
proof (induction vs arbitrary: i es fs)
  case Nil
  then show ?case by simp
next
  case (Cons v vs)
  from Cons.prems(1) obtain es' fs' where
    rest: "list_items cv (Suc i) vs = Some (es', fs')"
    and step: "(\<exists>f. float_validate cv v = Inr f \<and> es = es')
             \<or> (\<exists>t. float_validate cv v = Inl t
                   \<and> es = VErr t [PStr ''features'', PInt (int i)] v # es')"
    by (auto split: option.splits sum.splits if_splits)
  show ?case
  proof (cases "e \<in> set es'")
    case True
    from Cons.IH [OF rest True] obtain j t where
      "j < length vs" "float_validate cv (vs ! j) = Inl t"
      "e = VErr t [PStr ''features'', PInt (int (Suc i + j))] (vs ! j)"
      by blast
    then have "Suc j < length (v # vs) \<and> float_validate cv ((v # vs) ! Suc j) = Inl t
          \<and> e = VErr t [PStr ''features'', PInt (int (i + Suc j))] ((v # vs) ! Suc j)"
      by simp
    then show ?thesis by blast
  next
    case False
    with step Cons.prems(2) obtain t where
      "float_validate cv v = Inl t" "e = VErr t [PStr ''features'', PInt (int i)] v"
      by auto
    then have "0 < length (v # vs) \<and> float_validate cv ((v # vs) ! 0) = Inl t
          \<and> e = VErr t [PStr ''features'', PInt (int (i + 0))] ((v # vs) ! 0)"
      by simp
    then show ?thesis by blast
  qed
qed

lemma list_items_floats:
  "i + length fs \<le> features_len \<Longrightarrow> list_items cv i (map PFloat fs) = Some ([], fs)"
  by (induction fs arbitrary: i) simp_all

lemma PredictInput_floats:
  "length fs = 30 \<Longrightarrow> map_of d ''features'' = Some (PList (map PFloat fs)) \<Longrightarrow>
     PredictInput cv (PDict d) = Inr fs"
  by (simp add: PredictInput_dict validate_features_def list_items_floats features_len_def)

text \<open>What the validation of an object reports, case by case.\<close>

lemma PredictInput_report:
  assumes "PredictInput cv (PDict d) = Inl (ValidationError es)"
  shows "(map_of d ''features'' = None \<longrightarrow>
            es = [VErr ''missing'' [PStr ''features''] (PDict d)])
     \<and> (\<forall>v. map_of d ''features'' = Some v \<longrightarrow> (\<forall>vs. v \<noteq> PList vs) \<longrightarrow>
            es = [VErr ''list_type'' [PStr ''features''] v])
     \<and> (\<forall>vs. map_of d ''features'' = Some (PList vs) \<longrightarrow> 30 < length vs \<longrightarrow>
            es = [VErr ''too_long'' [PStr ''features''] (PList vs)])
     \<and> (\<forall>vs. map_of d ''features'' = Some (PList vs) \<longrightarrow> length vs < 30 \<longrightarrow>
            (\<forall>x \<in> set vs. \<exists>f. float_validate cv x = Inr f) \<longrightarrow>
            es = [VErr ''too_short'' [PStr ''features''] (PList vs)])
     \<and> (\<forall>vs. map_of d ''features'' = Some (PList vs) \<longrightarrow> length vs \<le> 30 \<longrightarrow>
            (\<exists>x \<in> set vs. \<exists>t. float_validate cv x = Inl t) \<longrightarrow>
            (\<forall>e \<in> set es. \<exists>j t. j < length vs \<and> float_validate cv (vs ! j) = Inl t
                 \<and> e = VErr t [PStr ''features'', PInt (int j)] (vs ! j)))"
proof (intro conjI allI impI ballI)
  assume "map_of d ''features'' = None"
  with assms show "es = [VErr ''missing'' [PStr ''features''] (PDict d)]"
    by (simp add: PredictInput_dict)
next
  fix v
  assume "map_of d ''features'' = Some v" and "\<forall>vs. v \<noteq> PList vs"
  with assms show "es = [VErr ''list_type'' [PStr ''features''] v]"
    by (cases v) (auto simp: PredictInput_dict validate_features_def split: sum.splits)
next
  fix vs
  assume f: "map_of d ''features'' = Some (PList vs)" and l: "30 < length vs"
  from list_items_None [of 0 cv vs] l have "list_items cv 0 vs = None"
    by (simp add: features_len_def)
  with assms f show "es = [VErr ''too_long'' [PStr ''features''] (PList vs)]"
    by (auto simp: PredictInput_dict validate_features_def split: sum.splits)
next
  fix vs
  assume f: "map_of d ''features'' = Some (PList vs)" and l: "length vs < 30"
    and ok: "\<forall>x \<in> set vs. \<exists>f. float_validate cv x = Inr f"
  from list_items_None [of 0 cv vs] l obtain es' fs where
    li: "list_items cv 0 vs = Some (es', fs)"
    by (cases "list_items cv 0 vs") (auto simp: features_len_def)
  from list_items_no_errors [OF li] ok have e: "es' = []" by simp
  from list_items_length [OF li] e l have "length fs < features_len"
    by (simp add: features_len_def)
  with assms f li e show "es = [VErr ''too_short'' [PStr ''features''] (PList vs)]"
    by (auto simp: PredictInput_dict validate_features_def split: sum.splits)
next
  fix vs e
  assume f: "map_of d ''features'' = Some (PList vs)" and l: "length vs \<le> 30"
    and bad: "\<exists>x \<in> set vs. \<exists>t. float_validate cv x = Inl t" and e: "e \<in> set es"
  from list_items_None [of 0 cv vs] l obtain es' fs where
    li: "list_items cv 0 vs = Some (es', fs)"
    by (cases "list_items cv 0 vs") (auto simp: features_len_def)
  from list_items_no_errors [OF li] bad have ne: "es' \<noteq> []" by auto
  with assms f li have "es = es'"
    by (auto simp: PredictInput_dict validate_features_def split: sum.splits)
  with list_items_only_errors [OF li, of e] e
  show "\<exists>j t. j < length vs \<and> float_validate cv (vs ! j) = Inl t
                 \<and> e = VErr t [PStr ''features'', PInt (int j)] (vs ! j)"
    by simp
qed

section \<open>The predict endpoint\<close>

lemma predict_validation_error:
  assumes "app_model a = Some mdl" and "req_json req = Inr data"
    and "PredictInput cv data = Inl (ValidationError es)"
  shows "predict cv a g req =
           jsonify (PDict [(''status'', PStr ''error''),
                           (''message'', PStr ''Payload invalido''),
                           (''details'', PList (map verr_json es))]) 400"
  using assms by (simp add: predict_def predict_try_def)

text \<open>
  A body that is JSON but no object never reaches the schema: unpacking it raises a
  TypeError, which is answered as any other exception.
\<close>

lemma predict_non_object_body:
  assumes "app_model a = Some mdl" and "req_json req = Inr data"
    and "\<forall>d. data \<noteq> PDict d"
  shows "predict cv a g req =
           jsonify (PDict [(''status'', PStr ''error''),
                           (''message'',
                            PStr (''PredictInput() argument after ** must be a mapping, not ''
                                  @ type_name data))]) 500"
  using assms by (cases data) (simp_all add: predict_def predict_try_def PredictInput_def)



lemma endpoint_name_nonempty: "endpoint_name v \<noteq> []"
  by (cases v) simp_all

lemma after_endpoint:
  "(case request_endpoint r of None \<Rightarrow> ''unknown'' | Some n \<Rightarrow> if n = [] then ''unknown'' else n)
     = (case request_endpoint r of None \<Rightarrow> ''unknown'' | Some n \<Rightarrow> n)"
  by (cases r) (simp_all add: endpoint_name_nonempty)

lemmas example_defs =
  predict_def predict_try_def proba_of_def pred_name_of_def PredictInput_def
  validate_features_def features_body_def loaded_app_def post_predict_def nan_detector_def
  failing_model_def example_conv_def example_ctx_def jsonify_def features_len_def
  verr_json_def

lemma replicate_30:
  "replicate 30 x = [x,x,x,x,x,x,x,x,x,x,x,x,x,x,x,x,x,x,x,x,x,x,x,x,x,x,x,x,x,x]"
  by (simp add: eval_nat_numeral)

lemma replicate_29:
  "replicate 29 x = [x,x,x,x,x,x,x,x,x,x,x,x,x,x,x,x,x,x,x,x,x,x,x,x,x,x,x,x,x]"
  by (simp add: eval_nat_numeral)

lemma replicate_10: "replicate 10 x = [x,x,x,x,x,x,x,x,x,x]"
  by (simp add: eval_nat_numeral)

lemma zeros_valid:
  "PredictInput example_conv (features_body (replicate 30 (PInt 0)))
     = Inr (replicate 30 (Finite 0))"
  by (simp add: PredictInput_def features_body_def validate_features_def features_len_def
      example_conv_def replicate_30)

section \<open>The claims\<close>

subsection \<open>C1: arity of the feature list\<close>

text \<open>
  C1.  With a model loaded and a JSON object whose \<^verbatim>\<open>features\<close> is a list, the schema
  accepts the list only when it has exactly 30 elements, whatever feature count the
  loaded metadata declares (the metadata is never consulted by validation): a list of
  any other length is answered with HTTP 400, and a list of 30 convertible elements is
  accepted.
\<close>

theorem predict_accepts_exactly_30:
  assumes "app_model a = Some mdl" and "req_json req = Inr (PDict d)"
    and "map_of d ''features'' = Some (PList vs)"
  shows "(length vs \<noteq> 30 \<longrightarrow> resp_status (predict cv (a\<lparr>app_meta := mt\<rparr>) g req) = 400)
       \<and> (\<forall>X. PredictInput cv (PDict d) = Inr X \<longrightarrow> length vs = 30)
       \<and> (length vs = 30 \<and> (\<forall>x \<in> set vs. \<exists>f. float_validate cv x = Inr f)
            \<longrightarrow> (\<exists>X. PredictInput cv (PDict d) = Inr X))"
proof -
  have acc: "length vs = 30" if "PredictInput cv (PDict d) = Inr X" for X
  proof -
    from that assms(3) have "validate_features cv (PList vs) = Inr X"
      by (simp add: PredictInput_dict split: sum.splits)
    from validate_features_Inr [OF this] show ?thesis by (simp add: features_len_def)
  qed
  have rej: "resp_status (predict cv (a\<lparr>app_meta := mt\<rparr>) g req) = 400" if "length vs \<noteq> 30"
  proof (cases "validate_features cv (PList vs)")
    case (Inl es)
    with assms(3) have "PredictInput cv (PDict d) = Inl (ValidationError es)"
      by (simp add: PredictInput_dict)
    from predict_validation_error [of "a\<lparr>app_meta := mt\<rparr>" mdl req "PDict d" cv es g] this assms
    show ?thesis by (simp add: jsonify_def)
  next
    case (Inr X)
    with assms(3) have "PredictInput cv (PDict d) = Inr X" by (simp add: PredictInput_dict)
    from acc [OF this] that show ?thesis by simp
  qed
  have ok: "\<exists>X. PredictInput cv (PDict d) = Inr X"
    if "length vs = 30" and "\<forall>x \<in> set vs. \<exists>f. float_validate cv x = Inr f"
  proof -
    from validate_features_accepts [of vs cv] that
    obtain fs where "validate_features cv (PList vs) = Inr fs" by (auto simp: features_len_def)
    with assms(3) show ?thesis by (simp add: PredictInput_dict)
  qed
  from acc rej ok show ?thesis by blast
qed

text \<open>
  The claim as stated ties the accepted length to the metadata.  With metadata that
  declares 10 features, a list of 30 zeros is accepted (HTTP 200) and a list of 10 zeros
  is rejected (HTTP 400).
\<close>

theorem metadata_feature_count_counterexample:
  "n_features_expected example_conv (PDict [(''n_features'', PInt 10)]) = 10
   \<and> resp_status (predict example_conv (loaded_app nan_detector (PDict [(''n_features'', PInt 10)]))
         example_ctx (post_predict Map.empty (features_body (replicate 30 (PInt 0))))) = 200
   \<and> resp_status (predict example_conv (loaded_app nan_detector (PDict [(''n_features'', PInt 10)]))
         example_ctx (post_predict Map.empty (features_body (replicate 10 (PInt 0))))) = 400"
  by (simp add: n_features_expected_def example_defs replicate_30 replicate_10)

theorem predict_accepts_exactly_30_witness:
  "resp_status (predict example_conv (loaded_app nan_detector (PDict [(''n_features'', PInt 3)]))
      example_ctx (post_predict Map.empty (features_body [PInt 1, PInt 2, PInt 3]))) = 400
   \<and> (\<exists>X. PredictInput example_conv (features_body (replicate 30 (PInt 0))) = Inr X)"
proof -
  have m: "app_model (loaded_app nan_detector PNone) = Some nan_detector"
    by (simp add: loaded_app_def)
  have j3: "req_json (post_predict Map.empty (features_body [PInt 1, PInt 2, PInt 3]))
              = Inr (PDict [(''features'', PList [PInt 1, PInt 2, PInt 3])])"
    by (simp add: post_predict_def features_body_def)
  have f3: "map_of [(''features'', PList [PInt 1, PInt 2, PInt 3])] ''features''
              = Some (PList [PInt 1, PInt 2, PInt 3])"
    by simp
  have j30: "req_json (post_predict Map.empty (features_body (replicate 30 (PInt 0))))
              = Inr (PDict [(''features'', PList (replicate 30 (PInt 0)))])"
    by (simp add: post_predict_def features_body_def)
  have f30: "map_of [(''features'', PList (replicate 30 (PInt 0)))] ''features''
              = Some (PList (replicate 30 (PInt 0)))"
    by simp
  have v30: "\<forall>x \<in> set (replicate 30 (PInt 0)). \<exists>f. float_validate example_conv x = Inr f"
    by (simp add: example_conv_def)
  from predict_accepts_exactly_30 [OF m j3 f3,
      of example_conv "PDict [(''n_features'', PInt 3)]" example_ctx]
  have "resp_status (predict example_conv (loaded_app nan_detector (PDict [(''n_features'', PInt 3)]))
      example_ctx (post_predict Map.empty (features_body [PInt 1, PInt 2, PInt 3]))) = 400"
    by (simp add: loaded_app_def)
  moreover from predict_accepts_exactly_30 [OF m j30 f30, of example_conv PNone example_ctx] v30
  have "\<exists>X. PredictInput example_conv (features_body (replicate 30 (PInt 0))) = Inr X"
    by (simp add: features_body_def)
  ultimately show ?thesis by simp
qed

subsection \<open>C2: the error report of an invalid payload\<close>

text \<open>
  C2.  With a model loaded and a body that is a JSON object breaking the contract (no
  \<^verbatim>\<open>features\<close> field, a \<^verbatim>\<open>features\<close> that is no list, a list of the wrong length, or a list
  with an element that cannot be converted), the response is HTTP 400 with the message
  of an invalid payload and a non-empty \<^verbatim>\<open>details\<close> list, which is what the schema reports:
  \<^item> a list of at most 30 elements with elements that cannot be converted: one entry for
    every such element, under its index, not only for the first one, and no other entry
    (the length is not reported);
  \<^item> a list of more than 30 elements: the single entry \<^verbatim>\<open>too_long\<close> (its elements are not
    reported);
  \<^item> a list of fewer than 30 elements, all convertible: the single entry \<^verbatim>\<open>too_short\<close>;
  \<^item> a \<^verbatim>\<open>features\<close> that is no list: the single entry \<^verbatim>\<open>list_type\<close>;
  \<^item> no \<^verbatim>\<open>features\<close> field: the single entry \<^verbatim>\<open>missing\<close>.
\<close>

theorem predict_invalid_payload:
  assumes "app_model a = Some mdl" and "req_json req = Inr (PDict d)"
    and "\<not> (\<exists>vs. map_of d ''features'' = Some (PList vs) \<and> length vs = 30
              \<and> (\<forall>x \<in> set vs. \<exists>f. float_validate cv x = Inr f))"
  shows "\<exists>es. es \<noteq> []
     \<and> predict cv a g req =
         jsonify (PDict [(''status'', PStr ''error''),
                         (''message'', PStr ''Payload invalido''),
                         (''details'', PList (map verr_json es))]) 400
     \<and> (\<forall>vs j t. map_of d ''features'' = Some (PList vs) \<longrightarrow> length vs \<le> 30 \<longrightarrow>
            j < length vs \<longrightarrow> float_validate cv (vs ! j) = Inl t \<longrightarrow>
            VErr t [PStr ''features'', PInt (int j)] (vs ! j) \<in> set es)
     \<and> (\<forall>vs. map_of d ''features'' = Some (PList vs) \<longrightarrow> length vs \<le> 30 \<longrightarrow>
            (\<exists>x \<in> set vs. \<exists>t. float_validate cv x = Inl t) \<longrightarrow>
            (\<forall>e \<in> set es. \<exists>j t. j < length vs \<and> float_validate cv (vs ! j) = Inl t
                 \<and> e = VErr t [PStr ''features'', PInt (int j)] (vs ! j)))
     \<and> (\<forall>vs. map_of d ''features'' = Some (PList vs) \<longrightarrow> 30 < length vs \<longrightarrow>
            es = [VErr ''too_long'' [PStr ''features''] (PList vs)])
     \<and> (\<forall>vs. map_of d ''features'' = Some (PList vs) \<longrightarrow> length vs < 30 \<longrightarrow>
            (\<forall>x \<in> set vs. \<exists>f. float_validate cv x = Inr f) \<longrightarrow>
            es = [VErr ''too_short'' [PStr ''features''] (PList vs)])
     \<and> (\<forall>v. map_of d ''features'' = Some v \<longrightarrow> (\<forall>vs. v \<noteq> PList vs) \<longrightarrow>
            es = [VErr ''list_type'' [PStr ''features''] v])
     \<and> (map_of d ''features'' = None \<longrightarrow>
            es = [VErr ''missing'' [PStr ''features''] (PDict d)])"
proof -
  from PredictInput_rejects [OF assms(3)]
  obtain es where pi: "PredictInput cv (PDict d) = Inl (ValidationError es)"
    and ne: "es \<noteq> []"
    and all: "\<forall>vs j t. map_of d ''features'' = Some (PList vs) \<longrightarrow> length vs \<le> 30 \<longrightarrow>
            j < length vs \<longrightarrow> float_validate cv (vs ! j) = Inl t \<longrightarrow>
            VErr t [PStr ''features'', PInt (int j)] (vs ! j) \<in> set es"
    by blast
  note rep = PredictInput_report [OF pi]
  show ?thesis
  proof (intro exI [of _ es] conjI)
    show "es \<noteq> []" by (rule ne)
    show "predict cv a g req =
         jsonify (PDict [(''status'', PStr ''error''),
                         (''message'', PStr ''Payload invalido''),
                         (''details'', PList (map verr_json es))]) 400"
      by (rule predict_validation_error [OF assms(1) assms(2) pi])
    show "\<forall>vs j t. map_of d ''features'' = Some (PList vs) \<longrightarrow> length vs \<le> 30 \<longrightarrow>
            j < length vs \<longrightarrow> float_validate cv (vs ! j) = Inl t \<longrightarrow>
            VErr t [PStr ''features'', PInt (int j)] (vs ! j) \<in> set es"
      by (rule all)
    show "\<forall>vs. map_of d ''features'' = Some (PList vs) \<longrightarrow> length vs \<le> 30 \<longrightarrow>
            (\<exists>x \<in> set vs. \<exists>t. float_validate cv x = Inl t) \<longrightarrow>
            (\<forall>e \<in> set es. \<exists>j t. j < length vs \<and> float_validate cv (vs ! j) = Inl t
                 \<and> e = VErr t [PStr ''features'', PInt (int j)] (vs ! j))"
      by (rule rep [THEN conjunct2, THEN conjunct2, THEN conjunct2, THEN conjunct2])
    show "\<forall>vs. map_of d ''features'' = Some (PList vs) \<longrightarrow> 30 < length vs \<longrightarrow>
            es = [VErr ''too_long'' [PStr ''features''] (PList vs)]"
      by (rule rep [THEN conjunct2, THEN conjunct2, THEN conjunct1])
    show "\<forall>vs. map_of d ''features'' = Some (PList vs) \<longrightarrow> length vs < 30 \<longrightarrow>
            (\<forall>x \<in> set vs. \<exists>f. float_validate cv x = Inr f) \<longrightarrow>
            es = [VErr ''too_short'' [PStr ''features''] (PList vs)]"
      by (rule rep [THEN conjunct2, THEN conjunct2, THEN conjunct2, THEN conjunct1])
    show "\<forall>v. map_of d ''features'' = Some v \<longrightarrow> (\<forall>vs. v \<noteq> PList vs) \<longrightarrow>
            es = [VErr ''list_type'' [PStr ''features''] v]"
      by (rule rep [THEN conjunct2, THEN conjunct1])
    show "map_of d ''features'' = None \<longrightarrow>
            es = [VErr ''missing'' [PStr ''features''] (PDict d)]"
      by (rule rep [THEN conjunct1])
  qed
qed

text \<open>
  The list of details does not name every violation.  A list of 31 elements whose first
  element is the string \<^verbatim>\<open>"a"\<close> is reported as too long only, without an entry for the
  element; the list \<^verbatim>\<open>["a", 2, 3]\<close> is reported for its first element only, without an
  entry for its length.
\<close>

theorem hidden_violations_counterexample:
  "json_field (resp_body (predict example_conv (loaded_app nan_detector (PDict [])) example_ctx
      (post_predict Map.empty (features_body (PStr ''a'' # replicate 30 (PInt 0)))))) ''details''
     = Some (PList [verr_json (VErr ''too_long'' [PStr ''features'']
                                 (PList (PStr ''a'' # replicate 30 (PInt 0))))])
   \<and> float_validate example_conv (PStr ''a'') = Inl ''float_parsing''
   \<and> json_field (resp_body (predict example_conv (loaded_app nan_detector (PDict [])) example_ctx
      (post_predict Map.empty (features_body [PStr ''a'', PInt 2, PInt 3])))) ''details''
     = Some (PList [verr_json (VErr ''float_parsing'' [PStr ''features'', PInt 0] (PStr ''a''))])
   \<and> length [PStr ''a'', PInt 2, PInt 3] = 3"
  by (simp add: example_defs replicate_30)

theorem predict_invalid_payload_witness:
  "resp_status (predict example_conv (loaded_app nan_detector (PDict [])) example_ctx
      (post_predict Map.empty (features_body [PStr ''a'', PInt 2, PNone]))) = 400
   \<and> json_field (resp_body (predict example_conv (loaded_app nan_detector (PDict [])) example_ctx
      (post_predict Map.empty (features_body [PStr ''a'', PInt 2, PNone])))) ''details''
       = Some (PList [verr_json (VErr ''float_parsing'' [PStr ''features'', PInt 0] (PStr ''a'')),
                      verr_json (VErr ''float_type'' [PStr ''features'', PInt 2] PNone)])"
proof -
  have m: "app_model (loaded_app nan_detector (PDict [])) = Some nan_detector"
    by (simp add: loaded_app_def)
  have j: "req_json (post_predict Map.empty (features_body [PStr ''a'', PInt 2, PNone]))
              = Inr (PDict [(''features'', PList [PStr ''a'', PInt 2, PNone])])"
    by (simp add: post_predict_def features_body_def)
  have bad: "\<not> (\<exists>vs. map_of [(''features'', PList [PStr ''a'', PInt 2, PNone])] ''features''
                      = Some (PList vs) \<and> length vs = 30
              \<and> (\<forall>x \<in> set vs. \<exists>f. float_validate example_conv x = Inr f))"
    by simp
  from predict_invalid_payload [OF m j bad, of example_ctx] show ?thesis
  proof (elim exE conjE)
    fix es
    assume "predict example_conv (loaded_app nan_detector (PDict [])) example_ctx
           (post_predict Map.empty (features_body [PStr ''a'', PInt 2, PNone])) =
         jsonify (PDict [(''status'', PStr ''error''),
                         (''message'', PStr ''Payload invalido''),
                         (''details'', PList (map verr_json es))]) 400"
    then show ?thesis by (simp add: example_defs)
  qed
qed

subsection \<open>C3: elements that are not numbers\<close>

text \<open>
  C3.  With a model loaded, a \<^verbatim>\<open>features\<close> list that holds an element that cannot be
  converted to a float (\<^verbatim>\<open>null\<close>, a list, an object, a string that does not parse, an
  integer out of range) is answered with HTTP 400.  The schema has no finiteness check:
  a list of any 30 floats, NaN and the infinities included, is accepted as it is, the
  predictor is called on exactly these 30 values, and the response is what the predictor
  answers on them.
\<close>

theorem predict_rejects_unconvertible:
  assumes "app_model a = Some mdl" and "req_json req = Inr (PDict d)"
    and "map_of d ''features'' = Some (PList vs)"
  shows "((\<exists>x \<in> set vs. \<exists>t. float_validate cv x = Inl t) \<longrightarrow>
            resp_status (predict cv a g req) = 400)
     \<and> (\<forall>fs. vs = map PFloat fs \<and> length fs = 30 \<longrightarrow>
            PredictInput cv (PDict d) = Inr fs
          \<and> predict_try cv mdl (app_meta a) g req =
              (case proba_of mdl fs of
                 Inl e \<Rightarrow> Inl e
               | Inr proba \<Rightarrow>
              (case model_predict mdl fs of
                 Inl e \<Rightarrow> Inl e
               | Inr pred_idx \<Rightarrow>
              (case pred_name_of (app_meta a) pred_idx of
                 Inl e \<Rightarrow> Inl e
               | Inr pred_name \<Rightarrow>
                   Inr (jsonify (PDict [(''status'', PStr ''success''),
                                        (''prediction_index'', PInt pred_idx),
                                        (''prediction'', pred_name),
                                        (''proba'', proba),
                                        (''request_id'', PStr (g_request_id g))]) 200))))
          \<and> (\<forall>proba pred_idx pred_name.
                proba_of mdl fs = Inr proba \<and> model_predict mdl fs = Inr pred_idx
                \<and> pred_name_of (app_meta a) pred_idx = Inr pred_name \<longrightarrow>
                predict cv a g req =
                  jsonify (PDict [(''status'', PStr ''success''),
                                  (''prediction_index'', PInt pred_idx),
                                  (''prediction'', pred_name),
                                  (''proba'', proba),
                                  (''request_id'', PStr (g_request_id g))]) 200))"
proof (intro conjI allI impI)
  assume bad: "\<exists>x \<in> set vs. \<exists>t. float_validate cv x = Inl t"
  have "\<not> (\<exists>vs. map_of d ''features'' = Some (PList vs) \<and> length vs = 30
              \<and> (\<forall>x \<in> set vs. \<exists>f. float_validate cv x = Inr f))"
  proof
    assume "\<exists>vs. map_of d ''features'' = Some (PList vs) \<and> length vs = 30
              \<and> (\<forall>x \<in> set vs. \<exists>f. float_validate cv x = Inr f)"
    with assms(3) have "\<forall>x \<in> set vs. \<exists>f. float_validate cv x = Inr f" by auto
    with bad show False by auto
  qed
  from PredictInput_rejects [OF this]
  obtain es where "PredictInput cv (PDict d) = Inl (ValidationError es)" by blast
  from predict_validation_error [OF assms(1) assms(2) this]
  show "resp_status (predict cv a g req) = 400" by (simp add: jsonify_def)
next
  fix fs
  assume fl: "vs = map PFloat fs \<and> length fs = 30"
  with assms(3) show pi: "PredictInput cv (PDict d) = Inr fs"
    by (simp add: PredictInput_floats)
  from pi assms(2) show "predict_try cv mdl (app_meta a) g req =
              (case proba_of mdl fs of
                 Inl e \<Rightarrow> Inl e
               | Inr proba \<Rightarrow>
              (case model_predict mdl fs of
                 Inl e \<Rightarrow> Inl e
               | Inr pred_idx \<Rightarrow>
              (case pred_name_of (app_meta a) pred_idx of
                 Inl e \<Rightarrow> Inl e
               | Inr pred_name \<Rightarrow>
                   Inr (jsonify (PDict [(''status'', PStr ''success''),
                                        (''prediction_index'', PInt pred_idx),
                                        (''prediction'', pred_name),
                                        (''proba'', proba),
                                        (''request_id'', PStr (g_request_id g))]) 200))))"
    by (simp add: predict_try_def)
  fix proba pred_idx pred_name
  assume "proba_of mdl fs = Inr proba \<and> model_predict mdl fs = Inr pred_idx
                \<and> pred_name_of (app_meta a) pred_idx = Inr pred_name"
  with pi assms(1) assms(2) show "predict cv a g req =
                  jsonify (PDict [(''status'', PStr ''success''),
                                  (''prediction_index'', PInt pred_idx),
                                  (''prediction'', pred_name),
                                  (''proba'', proba),
                                  (''request_id'', PStr (g_request_id g))]) 200"
    by (simp add: predict_def predict_try_def)
qed

text \<open>
  A NaN among the 30 features is not rejected: the request is answered with HTTP 200,
  and the predictor has seen the NaN (it answers class 1, and class 0 on 30 zeros).
\<close>

theorem nan_reaches_predictor_counterexample:
  "resp_status (predict example_conv (loaded_app nan_detector (PDict [])) example_ctx
      (post_predict Map.empty (features_body (PFloat NaN # replicate 29 (PInt 0))))) = 200
   \<and> json_field (resp_body (predict example_conv (loaded_app nan_detector (PDict [])) example_ctx
      (post_predict Map.empty (features_body (PFloat NaN # replicate 29 (PInt 0))))))
        ''prediction_index'' = Some (PInt 1)
   \<and> json_field (resp_body (predict example_conv (loaded_app nan_detector (PDict [])) example_ctx
      (post_predict Map.empty (features_body (replicate 30 (PInt 0))))))
        ''prediction_index'' = Some (PInt 0)"
  by (simp add: example_defs replicate_30 replicate_29)

theorem predict_rejects_unconvertible_witness:
  "resp_status (predict example_conv (loaded_app nan_detector (PDict [])) example_ctx
      (post_predict Map.empty (features_body (PNone # replicate 29 (PInt 0))))) = 400
   \<and> PredictInput example_conv
        (features_body (map PFloat (NaN # PosInf # replicate 28 (Finite 0))))
       = Inr (NaN # PosInf # replicate 28 (Finite 0))
   \<and> predict example_conv (loaded_app nan_detector (PDict [])) example_ctx
        (post_predict Map.empty
           (features_body (map PFloat (NaN # PosInf # replicate 28 (Finite 0)))))
       = jsonify (PDict [(''status'', PStr ''success''),
                         (''prediction_index'', PInt 1),
                         (''prediction'', PInt 1),
                         (''proba'', PNone),
                         (''request_id'', PStr ''r-1'')]) 200"
proof -
  have m: "app_model (loaded_app nan_detector (PDict [])) = Some nan_detector"
    by (simp add: loaded_app_def)
  have j: "req_json (post_predict Map.empty (features_body (PNone # replicate 29 (PInt 0))))
              = Inr (PDict [(''features'', PList (PNone # replicate 29 (PInt 0)))])"
    by (simp add: post_predict_def features_body_def)
  have f: "map_of [(''features'', PList (PNone # replicate 29 (PInt 0)))] ''features''
              = Some (PList (PNone # replicate 29 (PInt 0)))"
    by simp
  have x: "\<exists>x \<in> set (PNone # replicate 29 (PInt 0)). \<exists>t. float_validate example_conv x = Inl t"
    by simp
  from predict_rejects_unconvertible [OF m j f, of example_conv example_ctx, THEN conjunct1] x
  have one: "resp_status (predict example_conv (loaded_app nan_detector (PDict [])) example_ctx
      (post_predict Map.empty (features_body (PNone # replicate 29 (PInt 0))))) = 400"
    by (rule mp)
  have j2: "req_json (post_predict Map.empty
               (features_body (map PFloat (NaN # PosInf # replicate 28 (Finite 0)))))
              = Inr (PDict [(''features'',
                       PList (map PFloat (NaN # PosInf # replicate 28 (Finite 0))))])"
    by (simp add: post_predict_def features_body_def)
  have f2: "map_of [(''features'', PList (map PFloat (NaN # PosInf # replicate 28 (Finite 0))))]
               ''features''
              = Some (PList (map PFloat (NaN # PosInf # replicate 28 (Finite 0))))"
    by simp
  have l2: "map PFloat (NaN # PosInf # replicate 28 (Finite 0))
              = map PFloat (NaN # PosInf # replicate 28 (Finite 0))
            \<and> length (NaN # PosInf # replicate 28 (Finite 0)) = 30"
    by simp
  have p2: "proba_of nan_detector (NaN # PosInf # replicate 28 (Finite 0)) = Inr PNone
          \<and> model_predict nan_detector (NaN # PosInf # replicate 28 (Finite 0)) = Inr 1
          \<and> pred_name_of (app_meta (loaded_app nan_detector (PDict []))) 1 = Inr (PInt 1)"
    by (simp add: proba_of_def nan_detector_def pred_name_of_def loaded_app_def)
  note accepted =
    predict_rejects_unconvertible
      [OF m j2 f2, of example_conv example_ctx, THEN conjunct2, THEN spec, THEN mp, OF l2]
  note validated = accepted [THEN conjunct1]
  note answered =
    accepted [THEN conjunct2, THEN conjunct2, THEN spec, THEN spec, THEN spec, THEN mp, OF p2]
  from one validated answered show ?thesis
    by (simp add: features_body_def example_ctx_def)
qed

subsection \<open>C4: unexpected errors\<close>

text \<open>
  C4.  With a model loaded and a valid payload, when the computation of the
  probabilities, the prediction or the lookup of the class name raises an exception
  (other than a validation error), the response is HTTP 500 with a JSON body of exactly
  two fields: \<^verbatim>\<open>status\<close> is \<^verbatim>\<open>"error"\<close> and \<^verbatim>\<open>message\<close> is the text of the exception.
\<close>

theorem predict_unexpected_error:
  assumes "app_model a = Some mdl" and "req_json req = Inr data"
    and "PredictInput cv data = Inr X"
    and "proba_of mdl X = Inl (Raised s)
       \<or> (\<exists>p. proba_of mdl X = Inr p \<and> model_predict mdl X = Inl (Raised s))
       \<or> (\<exists>p idx. proba_of mdl X = Inr p \<and> model_predict mdl X = Inr idx
              \<and> pred_name_of (app_meta a) idx = Inl (Raised s))"
  shows "predict cv a g req =
           jsonify (PDict [(''status'', PStr ''error''), (''message'', PStr s)]) 500"
  using assms by (auto simp: predict_def predict_try_def)

text \<open>
  The message is not generic: it is the text of the exception, so two predictors that
  fail with different texts give different messages.
\<close>

theorem exception_detail_counterexample:
  "json_field (resp_body (predict example_conv
      (loaded_app (failing_model ''secret detail'') (PDict [])) example_ctx
      (post_predict Map.empty (features_body (replicate 30 (PInt 0)))))) ''message''
     = Some (PStr ''secret detail'')
   \<and> json_field (resp_body (predict example_conv
      (loaded_app (failing_model ''other detail'') (PDict [])) example_ctx
      (post_predict Map.empty (features_body (replicate 30 (PInt 0)))))) ''message''
     = Some (PStr ''other detail'')"
  by (simp add: example_defs replicate_30)

theorem predict_unexpected_error_witness:
  "predict example_conv (loaded_app (failing_model ''boom'') (PDict [])) example_ctx
      (post_predict Map.empty (features_body (replicate 30 (PInt 0))))
     = jsonify (PDict [(''status'', PStr ''error''), (''message'', PStr ''boom'')]) 500"
proof -
  have m: "app_model (loaded_app (failing_model ''boom'') (PDict [])) = Some (failing_model ''boom'')"
    by (simp add: loaded_app_def)
  have j: "req_json (post_predict Map.empty (features_body (replicate 30 (PInt 0))))
              = Inr (features_body (replicate 30 (PInt 0)))"
    by (simp add: post_predict_def)
  have r: "proba_of (failing_model ''boom'') (replicate 30 (Finite 0)) = Inl (Raised ''boom'')
       \<or> (\<exists>p. proba_of (failing_model ''boom'') (replicate 30 (Finite 0)) = Inr p
             \<and> model_predict (failing_model ''boom'') (replicate 30 (Finite 0))
                  = Inl (Raised ''boom''))
       \<or> (\<exists>p idx. proba_of (failing_model ''boom'') (replicate 30 (Finite 0)) = Inr p
             \<and> model_predict (failing_model ''boom'') (replicate 30 (Finite 0)) = Inr idx
             \<and> pred_name_of (app_meta (loaded_app (failing_model ''boom'') (PDict []))) idx
                  = Inl (Raised ''boom''))"
    by (simp add: failing_model_def proba_of_def)
  from predict_unexpected_error [OF m j zeros_valid r, of example_ctx] show ?thesis .
qed

subsection \<open>C5: health and availability follow the load state\<close>

text \<open>
  C5.  The state that \<^verbatim>\<open>create_app\<close> builds decides both endpoints.  The health endpoint
  answers HTTP 200 exactly when loading the artifact raised nothing and gave a model
  that is not \<^verbatim>\<open>None\<close>, and HTTP 500 otherwise; its body always carries the expected
  feature count, and its \<^verbatim>\<open>error\<close> is the stored load error: the text of the exception
  when loading raised, and \<^verbatim>\<open>null\<close> when loading gave \<^verbatim>\<open>None\<close> as the model.  When no model
  is held, the predict endpoint answers HTTP 500 with the message that the model is not
  loaded and the stored error, whatever the request: neither the body nor a predictor is
  consulted.
\<close>

theorem health_and_predict_follow_load_state:
  "(resp_status (health cv (create_app jl path)) = 200)
      = (\<exists>mdl mt. load_artifact jl path = Inr (Some mdl, mt))
   \<and> (resp_status (health cv (create_app jl path)) = 200
        \<or> resp_status (health cv (create_app jl path)) = 500)
   \<and> json_field (resp_body (health cv (create_app jl path))) ''n_features''
        = Some (PInt (n_features_expected cv (app_meta (create_app jl path))))
   \<and> json_field (resp_body (health cv (create_app jl path))) ''error''
        = Some (opt_str (app_load_error (create_app jl path)))
   \<and> (\<forall>s. load_artifact jl path = Inl s \<longrightarrow>
          app_model (create_app jl path) = None
        \<and> app_load_error (create_app jl path) = Some s
        \<and> resp_status (health cv (create_app jl path)) = 500)
   \<and> (\<forall>mt. load_artifact jl path = Inr (None, mt) \<longrightarrow>
          app_model (create_app jl path) = None
        \<and> app_load_error (create_app jl path) = None
        \<and> resp_status (health cv (create_app jl path)) = 500)
   \<and> (\<forall>mdl mt. load_artifact jl path = Inr (Some mdl, mt) \<longrightarrow>
          app_model (create_app jl path) = Some mdl
        \<and> app_load_error (create_app jl path) = None)
   \<and> (app_model (create_app jl path) = None \<longrightarrow>
          predict cv (create_app jl path) g req =
            jsonify (PDict [(''status'', PStr ''error''),
                            (''message'', PStr ''Modelo no cargado''),
                            (''error'', opt_str (app_load_error (create_app jl path)))]) 500)"
  by (cases "load_artifact jl path")
     (auto simp: create_app_def health_def predict_def jsonify_def Let_def split: prod.splits)

text \<open>
  An artifact whose \<^verbatim>\<open>model\<close> entry is \<^verbatim>\<open>None\<close> loads without an error, and no failure
  reason is stored; yet the health endpoint answers HTTP 500, with \<^verbatim>\<open>error\<close> null.
\<close>

theorem null_model_counterexample:
  "load_artifact null_model_artifact ''model.pkl''
     = Inr (None, PDict [(''n_features'', PInt 30)])
   \<and> app_load_error (create_app null_model_artifact ''model.pkl'') = None
   \<and> resp_status (health example_conv (create_app null_model_artifact ''model.pkl'')) = 500
   \<and> json_field (resp_body (health example_conv (create_app null_model_artifact ''model.pkl'')))
        ''error'' = Some PNone"
  by (simp add: load_artifact_def null_model_artifact_def create_app_def health_def
      jsonify_def opt_str_def Let_def)

theorem health_and_predict_follow_load_state_witness:
  "resp_status (health example_conv (create_app missing_file ''model.pkl'')) = 500
   \<and> json_field (resp_body (health example_conv (create_app missing_file ''model.pkl''))) ''error''
        = Some (PStr ''No such file or directory'')
   \<and> resp_status (predict example_conv (create_app missing_file ''model.pkl'') example_ctx
         (post_predict Map.empty (features_body []))) = 500
   \<and> resp_status (health example_conv (create_app trained_artifact ''model.pkl'')) = 200"
proof -
  have l: "load_artifact missing_file ''model.pkl'' = Inl ''No such file or directory''"
    by (simp add: load_artifact_def missing_file_def)
  have t: "\<exists>mdl mt. load_artifact trained_artifact ''model.pkl'' = Inr (Some mdl, mt)"
    by (simp add: load_artifact_def trained_artifact_def)
  from health_and_predict_follow_load_state
         [of example_conv missing_file "''model.pkl''" example_ctx
             "post_predict Map.empty (features_body [])"] l
  have "resp_status (health example_conv (create_app missing_file ''model.pkl'')) = 500
   \<and> json_field (resp_body (health example_conv (create_app missing_file ''model.pkl''))) ''error''
        = Some (PStr ''No such file or directory'')
   \<and> resp_status (predict example_conv (create_app missing_file ''model.pkl'') example_ctx
         (post_predict Map.empty (features_body []))) = 500"
    by (simp add: opt_str_def jsonify_def)
  moreover
  from health_and_predict_follow_load_state
         [of example_conv trained_artifact "''model.pkl''" example_ctx
             "post_predict Map.empty (features_body [])"] t
  have "resp_status (health example_conv (create_app trained_artifact ''model.pkl'')) = 200"
    by simp
  ultimately show ?thesis by simp
qed

subsection \<open>C6: the correlation id of the response\<close>

text \<open>
  C6.  Every response, of any endpoint and also of a request that matches no route,
  carries the header \<^verbatim>\<open>X-Request-Id\<close>.  When the request has the header, with any value,
  the empty one included, the response repeats exactly that value; when the request has
  no such header, the response carries the identifier that the UUID generator produced
  for this request.
\<close>

theorem response_carries_request_id:
  "resp_headers (fst (handle_request path cv e a ms req)) ''X-Request-Id''
     = Some (case req_headers req ''X-Request-Id'' of Some v \<Rightarrow> v | None \<Rightarrow> env_uuid e)"
  by (simp add: handle_request_def after_def before_def Let_def)

text \<open>
  A request whose \<^verbatim>\<open>X-Request-Id\<close> header is empty gets the empty value back, not the
  fresh identifier.
\<close>

theorem empty_request_id_counterexample:
  "resp_headers (fst (handle_request ''model.pkl'' example_conv
        (example_env ''0b8e8c2e-6a57-4f6e-9d0b-1f2f3a4b5c6d'' 10)
        (loaded_app nan_detector (PDict [])) empty_metrics
        (post_predict [''X-Request-Id'' \<mapsto> []] (features_body [])))) ''X-Request-Id''
     = Some []
   \<and> resp_headers (fst (handle_request ''model.pkl'' example_conv
        (example_env ''0b8e8c2e-6a57-4f6e-9d0b-1f2f3a4b5c6d'' 10)
        (loaded_app nan_detector (PDict [])) empty_metrics
        (post_predict [''X-Request-Id'' \<mapsto> []] (features_body [])))) ''X-Request-Id''
     \<noteq> Some ''0b8e8c2e-6a57-4f6e-9d0b-1f2f3a4b5c6d''"
  by (simp add: handle_request_def after_def before_def Let_def post_predict_def)

theorem response_carries_request_id_witness:
  "resp_headers (fst (handle_request ''model.pkl'' example_conv
        (example_env ''0b8e8c2e-6a57-4f6e-9d0b-1f2f3a4b5c6d'' 10)
        (loaded_app nan_detector (PDict [])) empty_metrics
        (post_predict [''X-Request-Id'' \<mapsto> ''abc-123''] (features_body [])))) ''X-Request-Id''
     = Some ''abc-123''
   \<and> resp_headers (fst (handle_request ''model.pkl'' example_conv
        (example_env ''0b8e8c2e-6a57-4f6e-9d0b-1f2f3a4b5c6d'' 10)
        (loaded_app nan_detector (PDict [])) empty_metrics
        (post_predict Map.empty (features_body [])))) ''X-Request-Id''
     = Some ''0b8e8c2e-6a57-4f6e-9d0b-1f2f3a4b5c6d''"
  using response_carries_request_id
          [of "''model.pkl''" example_conv "example_env ''0b8e8c2e-6a57-4f6e-9d0b-1f2f3a4b5c6d'' 10"
              "loaded_app nan_detector (PDict [])" empty_metrics
              "post_predict [''X-Request-Id'' \<mapsto> ''abc-123''] (features_body [])"]
        response_carries_request_id
          [of "''model.pkl''" example_conv "example_env ''0b8e8c2e-6a57-4f6e-9d0b-1f2f3a4b5c6d'' 10"
              "loaded_app nan_detector (PDict [])" empty_metrics
              "post_predict Map.empty (features_body [])"]
  by (simp add: post_predict_def example_env_def)

subsection \<open>C7: repeated predictions\<close>




subsection \<open>C8: one counter increment and one latency observation per request\<close>

text \<open>
  C8.  For every request (any route, any method, any outcome of the handler: success,
  validation failure, internal error, routing error), handling it increments exactly
  one counter, the one keyed by the endpoint name (or \<^verbatim>\<open>unknown\<close>), the method and the
  status code of the response that the handler returned, by exactly one, leaves every
  other counter as it was, and appends exactly one observation to the latency series
  keyed by endpoint and method.  The status in the key is that of the finished
  handler's response, which is also the status and body sent to the client.
\<close>

theorem metrics_emitted_exactly_once:
  "REQ_COUNT (snd (handle_request path cv e a ms req))
     = (REQ_COUNT ms)
         (((case request_endpoint (req_route req) of None \<Rightarrow> ''unknown'' | Some n \<Rightarrow> n),
           req_method req,
           str_nat (resp_status (dispatch path cv a ms (before e req) req (req_route req))))
          := Suc (REQ_COUNT ms
               ((case request_endpoint (req_route req) of None \<Rightarrow> ''unknown'' | Some n \<Rightarrow> n),
                req_method req,
                str_nat (resp_status (dispatch path cv a ms (before e req) req (req_route req))))))
   \<and> REQ_LATENCY (snd (handle_request path cv e a ms req))
     = (REQ_LATENCY ms)
         (((case request_endpoint (req_route req) of None \<Rightarrow> ''unknown'' | Some n \<Rightarrow> n),
           req_method req)
          := REQ_LATENCY ms
               ((case request_endpoint (req_route req) of None \<Rightarrow> ''unknown'' | Some n \<Rightarrow> n),
                req_method req) @ [env_time_after e - env_time_before e])
   \<and> resp_status (fst (handle_request path cv e a ms req))
     = resp_status (dispatch path cv a ms (before e req) req (req_route req))
   \<and> resp_body (fst (handle_request path cv e a ms req))
     = resp_body (dispatch path cv a ms (before e req) req (req_route req))"
  by (simp add: handle_request_def after_def Let_def after_endpoint) (simp add: before_def)

theorem metrics_emitted_exactly_once_witness:
  "REQ_COUNT (snd (handle_request ''model.pkl'' example_conv (example_env ''id-1'' 10)
        (loaded_app nan_detector (PDict [])) empty_metrics
        (post_predict Map.empty (features_body [PInt 1, PInt 2, PInt 3]))))
      (''predict'', ''POST'', ''400'') = 1
   \<and> REQ_COUNT (snd (handle_request ''model.pkl'' example_conv (example_env ''id-1'' 10)
        (loaded_app nan_detector (PDict [])) empty_metrics
        (post_predict Map.empty (features_body [PInt 1, PInt 2, PInt 3]))))
      (''predict'', ''POST'', ''200'') = 0
   \<and> REQ_LATENCY (snd (handle_request ''model.pkl'' example_conv (example_env ''id-1'' 10)
        (loaded_app nan_detector (PDict [])) empty_metrics
        (post_predict Map.empty (features_body [PInt 1, PInt 2, PInt 3]))))
      (''predict'', ''POST'') = [1]"
proof -
  have s: "resp_status (dispatch ''model.pkl'' example_conv (loaded_app nan_detector (PDict []))
        empty_metrics
        (before (example_env ''id-1'' 10)
           (post_predict Map.empty (features_body [PInt 1, PInt 2, PInt 3])))
        (post_predict Map.empty (features_body [PInt 1, PInt 2, PInt 3]))
        (req_route (post_predict Map.empty (features_body [PInt 1, PInt 2, PInt 3])))) = 400"
    by (simp add: example_defs)
  have d: "str_nat 400 = ''400''"
    by code_simp
  from metrics_emitted_exactly_once
         [of "''model.pkl''" example_conv "example_env ''id-1'' 10"
             "loaded_app nan_detector (PDict [])" empty_metrics
             "post_predict Map.empty (features_body [PInt 1, PInt 2, PInt 3])"]
       s d
  show ?thesis
    by (simp add: post_predict_def empty_metrics_def example_env_def)
qed

subsection \<open>C9: the prediction field\<close>

text \<open>
  C9.  In every successful response of the predict endpoint (HTTP 200) the metadata is a
  dictionary, \<^verbatim>\<open>prediction_index\<close> is the integer the predictor returned, and
  \<^verbatim>\<open>prediction\<close> is \<^verbatim>\<open>class_names[prediction_index]\<close> when the metadata holds \<^verbatim>\<open>class_names\<close>
  with a value that Python counts as true (a non-empty list), and the integer
  \<^verbatim>\<open>prediction_index\<close> itself when \<^verbatim>\<open>class_names\<close> is absent or counts as false
  (\<^verbatim>\<open>None\<close>, an empty list).
\<close>

theorem prediction_is_class_name_or_index:
  assumes "resp_status (predict cv a g req) = 200"
  shows "\<exists>idx d. app_meta a = PDict d
     \<and> json_field (resp_body (predict cv a g req)) ''prediction_index'' = Some (PInt idx)
     \<and> (case map_of d ''class_names'' of
          None \<Rightarrow> json_field (resp_body (predict cv a g req)) ''prediction'' = Some (PInt idx)
        | Some cn \<Rightarrow>
            if py_truthy cn
            then \<exists>v. py_getitem cn idx = Inr v
                   \<and> json_field (resp_body (predict cv a g req)) ''prediction'' = Some v
            else json_field (resp_body (predict cv a g req)) ''prediction'' = Some (PInt idx))"
proof (cases "app_model a")
  case None
  with assms show ?thesis by (simp add: predict_def jsonify_def)
next
  case (Some mdl)
  show ?thesis
  proof (cases "predict_try cv mdl (app_meta a) g req")
    case (Inl e)
    with Some assms show ?thesis
      by (cases e) (simp_all add: predict_def jsonify_def)
  next
    case (Inr resp)
    with Some have p: "predict cv a g req = resp" by (simp add: predict_def)
    from Inr obtain idx pn pr where pn: "pred_name_of (app_meta a) idx = Inr pn"
      and resp: "resp = jsonify (PDict [(''status'', PStr ''success''),
                               (''prediction_index'', PInt idx),
                               (''prediction'', pn),
                               (''proba'', pr),
                               (''request_id'', PStr (g_request_id g))]) 200"
      by (auto simp: predict_try_def split: sum.splits)
    from pn obtain d where d: "app_meta a = PDict d"
      by (cases "app_meta a") (simp_all add: pred_name_of_def)
    from pn d have "(case map_of d ''class_names'' of
          None \<Rightarrow> pn = PInt idx
        | Some cn \<Rightarrow> if py_truthy cn then py_getitem cn idx = Inr pn else pn = PInt idx)"
      by (auto simp: pred_name_of_def split: option.splits sum.splits if_splits)
    with p resp d show ?thesis
      by (auto simp: jsonify_def split: option.splits)
  qed
qed

text \<open>
  Metadata whose \<^verbatim>\<open>class_names\<close> is present but empty: the response is a success and
  \<^verbatim>\<open>prediction\<close> is the raw index, while \<^verbatim>\<open>class_names[0]\<close> does not exist.
\<close>

theorem empty_class_names_counterexample:
  "map_of [(''class_names'', PList [])] ''class_names'' = Some (PList [])
   \<and> py_getitem (PList []) 0 = Inl ''list index out of range''
   \<and> resp_status (predict example_conv (loaded_app nan_detector (PDict [(''class_names'', PList [])]))
        example_ctx (post_predict Map.empty (features_body (replicate 30 (PInt 0))))) = 200
   \<and> json_field (resp_body (predict example_conv
        (loaded_app nan_detector (PDict [(''class_names'', PList [])]))
        example_ctx (post_predict Map.empty (features_body (replicate 30 (PInt 0))))))
        ''prediction'' = Some (PInt 0)"
  by (simp add: example_defs replicate_30 index_in_def)

theorem prediction_is_class_name_or_index_witness:
  "json_field (resp_body (predict example_conv
        (loaded_app nan_detector
           (PDict [(''class_names'', PList [PStr ''malignant'', PStr ''benign''])]))
        example_ctx (post_predict Map.empty (features_body (replicate 30 (PInt 0))))))
        ''prediction'' = Some (PStr ''malignant'')"
proof -
  have s: "resp_status (predict example_conv
        (loaded_app nan_detector
           (PDict [(''class_names'', PList [PStr ''malignant'', PStr ''benign''])]))
        example_ctx (post_predict Map.empty (features_body (replicate 30 (PInt 0))))) = 200"
    by (simp add: example_defs replicate_30 index_in_def)
  have i: "json_field (resp_body (predict example_conv
        (loaded_app nan_detector
           (PDict [(''class_names'', PList [PStr ''malignant'', PStr ''benign''])]))
        example_ctx (post_predict Map.empty (features_body (replicate 30 (PInt 0))))))
        ''prediction_index'' = Some (PInt 0)"
    by (simp add: example_defs replicate_30 index_in_def)
  from prediction_is_class_name_or_index [OF s] i show ?thesis
    by (auto simp: loaded_app_def index_in_def)
qed

subsection \<open>C10: the expected feature count is always an integer\<close>

text \<open>
  C10.  \<^verbatim>\<open>n_features_expected\<close> returns an integer for every metadata value and never
  raises: it is \<^verbatim>\<open>int(meta["n_features"])\<close> when the metadata is a dictionary that holds
  the key and the conversion succeeds, and 30 in every other case (no dictionary, no key,
  a value that \<^verbatim>\<open>int\<close> rejects).  The health endpoint reports exactly this integer as
  \<^verbatim>\<open>n_features\<close>, whatever the application state.
\<close>

theorem n_features_expected_total:
  "n_features_expected cv meta =
     (case meta of
        PDict d \<Rightarrow>
          (case map_of d ''n_features'' of
             None \<Rightarrow> 30
           | Some v \<Rightarrow> (case py_int cv v of Some n \<Rightarrow> n | None \<Rightarrow> 30))
      | _ \<Rightarrow> 30)
   \<and> json_field (resp_body (health cv a)) ''n_features''
        = Some (PInt (n_features_expected cv (app_meta a)))"
proof
  show "n_features_expected cv meta =
     (case meta of
        PDict d \<Rightarrow>
          (case map_of d ''n_features'' of
             None \<Rightarrow> 30
           | Some v \<Rightarrow> (case py_int cv v of Some n \<Rightarrow> n | None \<Rightarrow> 30))
      | _ \<Rightarrow> 30)"
    by (cases meta) (simp_all add: n_features_expected_def split: option.splits)
next
  show "json_field (resp_body (health cv a)) ''n_features''
        = Some (PInt (n_features_expected cv (app_meta a)))"
    by (simp add: health_def jsonify_def Let_def)
qed

theorem n_features_expected_total_witness:
  "n_features_expected example_conv (PDict [(''n_features'', PInt 12)]) = 12
   \<and> n_features_expected example_conv (PDict [(''n_features'', PStr ''many'')]) = 30
   \<and> n_features_expected example_conv (PDict [(''n_features'', PFloat NaN)]) = 30
   \<and> n_features_expected example_conv (PDict []) = 30
   \<and> n_features_expected example_conv (PList [PInt 12]) = 30
   \<and> json_field (resp_body (health example_conv (create_app missing_file ''model.pkl'')))
        ''n_features'' = Some (PInt 30)"
  using n_features_expected_total [of example_conv "PDict [(''n_features'', PInt 12)]"]
        n_features_expected_total [of example_conv "PDict [(''n_features'', PStr ''many'')]"]
        n_features_expected_total [of example_conv "PDict [(''n_features'', PFloat NaN)]"]
        n_features_expected_total [of example_conv "PDict []"]
        n_features_expected_total [of example_conv "PList [PInt 12]"
                                      "create_app missing_file ''model.pkl''"]
  by (simp add: example_conv_def create_app_def load_artifact_def missing_file_def)

end
